theory Spec2Isabelle
  imports
    Complex_Main
    "HOL-Library.AList"
    "HOL-Library.Char_ord"
    "HOL-Library.List_Lexorder"
    "HOL-Library.Sublist"
begin

section \<open>Values of the Python program\<close>

text \<open>
  What \<^verbatim>\<open>json.loads\<close> and \<^verbatim>\<open>resp.json()\<close> return: \<^verbatim>\<open>None\<close>, booleans, integers,
  strings, lists and dicts. A dict is an association list in insertion order, as Python
  keeps it; a well-formed dict has distinct keys. Numbers with a fraction are left out:
  no branch of the program distinguishes them from integers, and their textual form is
  floating-point printing. A character is a code point below 256.
\<close>

datatype json =
    JNull
  | JBool bool
  | JInt int
  | JStr string
  | JList "json list"
  | JObj "(string \<times> json) list"

text \<open>Python's truth value, as used by \<^verbatim>\<open>not x\<close>, \<^verbatim>\<open>x or y\<close> and \<^verbatim>\<open>if x\<close>.\<close>

fun truthy :: "json \<Rightarrow> bool" where
  "truthy JNull = False"
| "truthy (JBool b) = b"
| "truthy (JInt n) = (n \<noteq> 0)"
| "truthy (JStr s) = (s \<noteq> [])"
| "truthy (JList xs) = (xs \<noteq> [])"
| "truthy (JObj kvs) = (kvs \<noteq> [])"

text \<open>\<^verbatim>\<open>x or y\<close>.\<close>

definition py_or :: "json \<Rightarrow> json \<Rightarrow> json" where
  "py_or x y = (if truthy x then x else y)"

text \<open>
  The exceptions the program can meet, each with the text \<^verbatim>\<open>str(e)\<close> gives, except
  \<^verbatim>\<open>HTTPError\<close>, which carries the status code of its response.
\<close>

datatype py_error =
    HTTPError int
  | RequestException string
  | JSONDecodeError string
  | TypeError string
  | ValueError string
  | AttributeError string
  | OSError string
  | OverflowError string
  | UnicodeEncodeError string

text \<open>The name of a value's type, as Python prints it in error messages.\<close>

fun type_name :: "json \<Rightarrow> string" where
  "type_name JNull = ''NoneType''"
| "type_name (JBool b) = ''bool''"
| "type_name (JInt n) = ''int''"
| "type_name (JStr s) = ''str''"
| "type_name (JList xs) = ''list''"
| "type_name (JObj kvs) = ''dict''"

section \<open>Dicts\<close>

text \<open>
  \<^verbatim>\<open>d[k] = v\<close> is \<^const>\<open>AList.update\<close>: an existing key keeps its place, a new key goes
  to the end. \<^verbatim>\<open>d.get(k)\<close> is \<^const>\<open>map_of\<close>.
\<close>

type_synonym headers = "(json \<times> json) list"

text \<open>
  \<^verbatim>\<open>base.update(x)\<close> inside \<^verbatim>\<open>try: ... except Exception: pass\<close>: the value of \<^verbatim>\<open>base\<close>
  afterwards, whether or not the call raised. A dict argument is merged entry by entry.
  Any other argument is iterated as a sequence of key/value pairs; the call raises at the
  first element that is not a sequence of length two or whose key is unhashable, and the
  entries stored before that stay. (Python identifies the keys \<^verbatim>\<open>1\<close> and \<^verbatim>\<open>True\<close>; the
  program looks up string keys only.)
\<close>

fun pair_of :: "json \<Rightarrow> (json \<times> json) option" where
  "pair_of (JList [k, v]) = Some (k, v)"
| "pair_of (JStr [c, d]) = Some (JStr [c], JStr [d])"
| "pair_of (JObj [(k1, v1), (k2, v2)]) = Some (JStr k1, JStr k2)"
| "pair_of x = None"

fun hashable :: "json \<Rightarrow> bool" where
  "hashable (JList xs) = False"
| "hashable (JObj kvs) = False"
| "hashable x = True"

fun merge_seq2 :: "headers \<Rightarrow> json list \<Rightarrow> headers" where
  "merge_seq2 d [] = d"
| "merge_seq2 d (x # xs) =
     (case pair_of x of
        None \<Rightarrow> d
      | Some (k, v) \<Rightarrow> if hashable k then merge_seq2 (AList.update k v d) xs else d)"

fun dict_update :: "headers \<Rightarrow> json \<Rightarrow> headers" where
  "dict_update d (JObj kvs) = fold (\<lambda>(k, v). AList.update (JStr k) v) kvs d"
| "dict_update d (JList xs) = merge_seq2 d xs"
| "dict_update d x = d"

section \<open>Configuration\<close>

text \<open>
  The process environment is a map from names to values; \<^verbatim>\<open>os.getenv(name, default)\<close>.
\<close>

type_synonym environ = "string \<rightharpoonup> string"

definition getenv :: "environ \<Rightarrow> string \<Rightarrow> string \<Rightarrow> string" where
  "getenv env name dflt = (case env name of None \<Rightarrow> dflt | Some v \<Rightarrow> v)"

text \<open>
  \<^verbatim>\<open>build_headers\<close>. The JSON parser \<^verbatim>\<open>json.loads\<close> is a parameter: \<open>loads s\<close> is
  \<open>None\<close> where the parser raises.
\<close>

definition build_headers :: "(string \<Rightarrow> json option) \<Rightarrow> environ \<Rightarrow> headers" where
  "build_headers loads env =
     (let public_key = getenv env ''REFTAB_PUBLIC_KEY'' '''';
          secret_key = getenv env ''REFTAB_SECRET_KEY'' '''';
          base = [(JStr ''X-Public-Key'', JStr public_key),
                  (JStr ''X-Secret-Key'', JStr secret_key)];
          extra = getenv env ''REFTAB_HEADERS'' ''''
      in if extra \<noteq> '''' then
           (case loads extra of
              Some x \<Rightarrow> dict_update base x
            | None \<Rightarrow> base)
         else base)"

text \<open>\<^verbatim>\<open>not headers.get(k)\<close>: the key is absent or its value is falsy.\<close>

definition header_missing :: "headers \<Rightarrow> string \<Rightarrow> bool" where
  "header_missing h k = (case map_of h (JStr k) of None \<Rightarrow> True | Some v \<Rightarrow> \<not> truthy v)"

section \<open>The HTTP pager\<close>

record session =
  sess_headers :: "(string \<times> string) list"

definition build_session :: session where
  "build_session = \<lparr>sess_headers = [(''Accept'', ''application/json'')]\<rparr>"

definition rstrip :: "char \<Rightarrow> string \<Rightarrow> string" where
  "rstrip c s = rev (dropWhile (\<lambda>x. x = c) (rev s))"

definition lstrip :: "char \<Rightarrow> string \<Rightarrow> string" where
  "lstrip c s = dropWhile (\<lambda>x. x = c) s"

definition join_url :: "string \<Rightarrow> string \<Rightarrow> string" where
  "join_url base path = rstrip (CHR ''/'') base @ ''/'' @ lstrip (CHR ''/'') path"

text \<open>One call of \<^verbatim>\<open>session.get(url, params=qp, headers=headers, timeout=60)\<close>.\<close>

record request =
  req_session :: session
  req_url :: string
  req_params :: "(string \<times> json) list"
  req_headers :: headers
  req_timeout :: nat

text \<open>
  What the call gives back: an exception of the HTTP client (connection failure, timeout,
  ...) with its message, or a response with a status code and a body. The body is what
  \<^verbatim>\<open>resp.json()\<close> does with it: raise with a message, or return a value.
\<close>

datatype body = NotJson string | Json json

datatype reply = Raises string | Response int body

text \<open>
  The server is a state machine: from its state and a request, a reply and the next
  state. A reply may depend on everything the server has seen before.
\<close>

type_synonym 's server = "'s \<Rightarrow> request \<Rightarrow> reply \<times> 's"

text \<open>
  The sleep duration is a Python float: a real number, an infinity or NaN. \<^verbatim>\<open>--sleep\<close> is
  read with \<^verbatim>\<open>float\<close>, which accepts all of them. \<open>gt_zero\<close> is the test \<^verbatim>\<open>sleep_s > 0\<close>.
\<close>

datatype pyfloat = Finite real | PosInf | NegInf | NaN

fun gt_zero :: "pyfloat \<Rightarrow> bool" where
  "gt_zero (Finite x) = (0 < x)"
| "gt_zero PosInf = True"
| "gt_zero NegInf = False"
| "gt_zero NaN = False"

text \<open>
  \<^verbatim>\<open>time.sleep(d)\<close>: \<open>None\<close> when it sleeps and returns, otherwise the exception. The
  interpreter first converts the duration to whole nanoseconds in a signed 64-bit integer,
  which fails for NaN and for a duration outside that range (about 9.2e9 seconds either
  way, and both infinities), and then refuses a negative duration. The messages are those
  of CPython 3.8 to 3.12. At the very ends of the range the rounding of the float product
  decides, which the real numbers here do not show.
\<close>

fun time_sleep :: "pyfloat \<Rightarrow> py_error option" where
  "time_sleep NaN = Some (ValueError ''Invalid value NaN (not a number)'')"
| "time_sleep PosInf = Some (OverflowError ''timestamp too large to convert to C _PyTime_t'')"
| "time_sleep NegInf = Some (OverflowError ''timestamp too large to convert to C _PyTime_t'')"
| "time_sleep (Finite x) =
     (if x * 10 ^ 9 < - (2 ^ 63) \<or> 2 ^ 63 - 1 < x * 10 ^ 9
      then Some (OverflowError ''timestamp too large to convert to C _PyTime_t'')
      else if x < 0 then Some (ValueError ''sleep length must be non-negative'')
      else None)"

text \<open>
  What the pager does to the outside world, in order: the requests it sends and the sleeps
  it completes.
\<close>

datatype event = Get request | Sleep pyfloat

text \<open>Lines 43 to 47: the batch of a parsed body.\<close>

definition batch_of :: "json \<Rightarrow> json" where
  "batch_of j =
     (let data = py_or j (JList [])
      in case data of
           JObj kvs \<Rightarrow>
             (case map_of kvs ''results'' of
                Some r \<Rightarrow> py_or r (JList [])
              | None \<Rightarrow> JList [])
         | JList xs \<Rightarrow> JList xs
         | _ \<Rightarrow> JList [])"

text \<open>
  \<^verbatim>\<open>out.extend(batch)\<close>: a list is appended, a string gives its characters, a dict
  its keys, anything else is not iterable.
\<close>

fun list_extend :: "json list \<Rightarrow> json \<Rightarrow> py_error + json list" where
  "list_extend out (JList xs) = Inr (out @ xs)"
| "list_extend out (JStr s) = Inr (out @ map (\<lambda>c. JStr [c]) s)"
| "list_extend out (JObj kvs) = Inr (out @ map (\<lambda>kv. JStr (fst kv)) kvs)"
| "list_extend out x = Inl (TypeError ([CHR 0x27] @ type_name x @ [CHR 0x27] @ '' object is not iterable''))"

text \<open>\<^verbatim>\<open>len(batch)\<close>, reached only after \<^verbatim>\<open>extend\<close> has succeeded.\<close>

fun py_len :: "json \<Rightarrow> int" where
  "py_len (JList xs) = int (length xs)"
| "py_len (JStr s) = int (length s)"
| "py_len (JObj kvs) = int (length kvs)"
| "py_len x = 0"

text \<open>The query parameters of one request: lines 34 to 36.\<close>

definition query_params :: "(string \<times> json) list \<Rightarrow> int \<Rightarrow> int \<Rightarrow> (string \<times> json) list" where
  "query_params params limit offset =
     AList.update ''offset'' (JInt offset) (AList.update ''limit'' (JInt limit) params)"

definition mk_request ::
  "session \<Rightarrow> string \<Rightarrow> string \<Rightarrow> (string \<times> json) list \<Rightarrow> headers \<Rightarrow> int \<Rightarrow> int \<Rightarrow> request" where
  "mk_request sess base_url path params hdrs limit offset =
     \<lparr>req_session = sess, req_url = join_url base_url path,
      req_params = query_params params limit offset,
      req_headers = hdrs, req_timeout = 60\<rparr>"

text \<open>
  The loop of \<^verbatim>\<open>get_paginated\<close>, with the loop variables \<open>offset\<close> and \<open>out\<close>, the
  server's state and the events so far as arguments. It returns the events together with
  the exception raised or the list returned; \<open>None\<close> is a run that never ends. Both
  sleeps, of line 40 and of line 55, can raise. \<^verbatim>\<open>raise_for_status\<close> raises for a status
  from 400 to 599, of which the loop has already taken those from 500.
\<close>

partial_function (option) pager_loop ::
  "'s server \<Rightarrow> session \<Rightarrow> string \<Rightarrow> string \<Rightarrow> (string \<times> json) list \<Rightarrow> headers \<Rightarrow> int \<Rightarrow> pyfloat \<Rightarrow>
   's \<Rightarrow> int \<Rightarrow> json list \<Rightarrow> event list \<Rightarrow> (event list \<times> (py_error + json list)) option" where
  "pager_loop srv sess base_url path params hdrs limit sleep_s st offset out evs =
     (let rq = mk_request sess base_url path params hdrs limit offset;
          evs1 = evs @ [Get rq]
      in case srv st rq of
           (Raises msg, st') \<Rightarrow> Some (evs1, Inl (RequestException msg))
         | (Response status_code b, st') \<Rightarrow>
             if status_code \<ge> 500 then
               (case time_sleep sleep_s of
                  Some e \<Rightarrow> Some (evs1, Inl e)
                | None \<Rightarrow>
                    pager_loop srv sess base_url path params hdrs limit sleep_s
                      st' offset out (evs1 @ [Sleep sleep_s]))
             else if 400 \<le> status_code then Some (evs1, Inl (HTTPError status_code))
             else
               (case b of
                  NotJson msg \<Rightarrow> Some (evs1, Inl (JSONDecodeError msg))
                | Json j \<Rightarrow>
                    let batch = batch_of j
                    in if \<not> truthy batch then Some (evs1, Inr out)
                       else
                         (case list_extend out batch of
                            Inl e \<Rightarrow> Some (evs1, Inl e)
                          | Inr out' \<Rightarrow>
                              if py_len batch < limit then Some (evs1, Inr out')
                              else if gt_zero sleep_s then
                                (case time_sleep sleep_s of
                                   Some e \<Rightarrow> Some (evs1, Inl e)
                                 | None \<Rightarrow>
                                     pager_loop srv sess base_url path params hdrs limit sleep_s
                                       st' (offset + limit) out' (evs1 @ [Sleep sleep_s]))
                              else pager_loop srv sess base_url path params hdrs limit sleep_s
                                     st' (offset + limit) out' evs1)))"

definition get_paginated ::
  "'s server \<Rightarrow> 's \<Rightarrow> session \<Rightarrow> string \<Rightarrow> string \<Rightarrow> (string \<times> json) list \<Rightarrow> headers \<Rightarrow> int \<Rightarrow> pyfloat \<Rightarrow>
   (event list \<times> (py_error + json list)) option" where
  "get_paginated srv st sess base_url path params hdrs limit sleep_s =
     pager_loop srv sess base_url path params hdrs limit sleep_s st 0 [] []"

text \<open>
  \<^verbatim>\<open>fetch_assets\<close> and \<^verbatim>\<open>fetch_locations\<close>: the path, and \<^verbatim>\<open>q\<close> when the query is a
  non-empty string.
\<close>

definition query_dict :: "string option \<Rightarrow> (string \<times> json) list" where
  "query_dict query =
     (case query of
        None \<Rightarrow> []
      | Some q \<Rightarrow> if q \<noteq> '''' then AList.update ''q'' (JStr q) [] else [])"

definition fetch_assets ::
  "'s server \<Rightarrow> 's \<Rightarrow> session \<Rightarrow> string \<Rightarrow> headers \<Rightarrow> int \<Rightarrow> pyfloat \<Rightarrow> string option \<Rightarrow>
   (event list \<times> (py_error + json list)) option" where
  "fetch_assets srv st sess base_url hdrs limit sleep_s query =
     get_paginated srv st sess base_url ''assets'' (query_dict query) hdrs limit sleep_s"

definition fetch_locations ::
  "'s server \<Rightarrow> 's \<Rightarrow> session \<Rightarrow> string \<Rightarrow> headers \<Rightarrow> int \<Rightarrow> pyfloat \<Rightarrow> string option \<Rightarrow>
   (event list \<times> (py_error + json list)) option" where
  "fetch_locations srv st sess base_url hdrs limit sleep_s query =
     get_paginated srv st sess base_url ''locations'' (query_dict query) hdrs limit sleep_s"

section \<open>Text forms\<close>

text \<open>\<^verbatim>\<open>str(n)\<close> for an integer.\<close>

definition digit_char :: "nat \<Rightarrow> char" where
  "digit_char d = ''0123456789'' ! d"

fun str_nat :: "nat \<Rightarrow> string" where
  "str_nat n = (if n < 10 then [digit_char n] else str_nat (n div 10) @ [digit_char (n mod 10)])"

declare str_nat.simps [simp del]

definition str_int :: "int \<Rightarrow> string" where
  "str_int i = (if i < 0 then CHR ''-'' # str_nat (nat (- i)) else str_nat (nat i))"

text \<open>\<^verbatim>\<open>sep.join(xs)\<close>.\<close>

fun join :: "string \<Rightarrow> string list \<Rightarrow> string" where
  "join sep [] = []"
| "join sep [x] = x"
| "join sep (x # y # ys) = x @ sep @ join sep (y # ys)"

text \<open>
  \<^verbatim>\<open>json.dumps\<close> with its default separators. A character of a string is written as
  itself, as one of the two-character escapes, or as a \<^verbatim>\<open>\u00XX\<close> escape: with
  \<^verbatim>\<open>ensure_ascii\<close> everything outside space to tilde is escaped, without it only the
  control characters below space, the double quote and the backslash.
\<close>

definition hex_char :: "nat \<Rightarrow> char" where
  "hex_char d = ''0123456789abcdef'' ! d"

definition u_escape :: "nat \<Rightarrow> string" where
  "u_escape n = [CHR 0x5C, CHR ''u'', CHR ''0'', CHR ''0'', hex_char (n div 16), hex_char (n mod 16)]"

definition esc_char :: "bool \<Rightarrow> char \<Rightarrow> string" where
  "esc_char ensure_ascii c =
     (let n = (of_char c :: nat)
      in if c = CHR 0x5C then [CHR 0x5C, CHR 0x5C]
         else if c = CHR 0x22 then [CHR 0x5C, CHR 0x22]
         else if c = CHR 0x08 then [CHR 0x5C, CHR ''b'']
         else if c = CHR 0x0C then [CHR 0x5C, CHR ''f'']
         else if c = CHR 0x0A then [CHR 0x5C, CHR ''n'']
         else if c = CHR 0x0D then [CHR 0x5C, CHR ''r'']
         else if c = CHR 0x09 then [CHR 0x5C, CHR ''t'']
         else if n < 32 \<or> (ensure_ascii \<and> 126 < n) then u_escape n
         else [c])"

definition dumps_str :: "bool \<Rightarrow> string \<Rightarrow> string" where
  "dumps_str ensure_ascii s = [CHR 0x22] @ concat (map (esc_char ensure_ascii) s) @ [CHR 0x22]"

fun json_dumps :: "bool \<Rightarrow> json \<Rightarrow> string" where
  "json_dumps ea JNull = ''null''"
| "json_dumps ea (JBool b) = (if b then ''true'' else ''false'')"
| "json_dumps ea (JInt n) = str_int n"
| "json_dumps ea (JStr s) = dumps_str ea s"
| "json_dumps ea (JList xs) = ''['' @ join '', '' (map (json_dumps ea) xs) @ '']''"
| "json_dumps ea (JObj kvs) =
     ''{'' @ join '', '' (map (\<lambda>kv. dumps_str ea (fst kv) @ '': '' @ json_dumps ea (snd kv)) kvs) @ ''}''"

section \<open>The CSV writer\<close>

text \<open>
  The text of one cell: line 80 turns a dict or a list into its \<^verbatim>\<open>json.dumps\<close> text and
  leaves any other value; the \<^verbatim>\<open>csv\<close> writer then writes a string as it is, \<^verbatim>\<open>None\<close> as
  the empty string, and anything else through \<^verbatim>\<open>str\<close>.
\<close>

fun cell_text :: "json \<Rightarrow> string" where
  "cell_text (JList xs) = json_dumps True (JList xs)"
| "cell_text (JObj kvs) = json_dumps True (JObj kvs)"
| "cell_text (JStr s) = s"
| "cell_text JNull = ''''"
| "cell_text (JInt n) = str_int n"
| "cell_text (JBool b) = (if b then ''True'' else ''False'')"

text \<open>
  The \<^verbatim>\<open>csv\<close> writer's excel dialect: a field holding a comma, a double quote, a carriage
  return or a line feed is put in double quotes, with each double quote inside written
  twice; fields are joined by commas and the row ends with carriage return and line feed.
  A row whose only field is empty is written as two double quotes.
\<close>

definition needs_quotes :: "string \<Rightarrow> bool" where
  "needs_quotes s = list_ex (\<lambda>c. c = CHR '','' \<or> c = CHR 0x22 \<or> c = CHR 0x0D \<or> c = CHR 0x0A) s"

definition csv_field :: "string \<Rightarrow> string" where
  "csv_field s =
     (if needs_quotes s
      then [CHR 0x22] @ concat (map (\<lambda>c. if c = CHR 0x22 then [CHR 0x22, CHR 0x22] else [c]) s) @ [CHR 0x22]
      else s)"

definition csv_row :: "string list \<Rightarrow> string" where
  "csv_row cells =
     (if cells = [[]] then [CHR 0x22, CHR 0x22] else join '','' (map csv_field cells))
     @ [CHR 0x0D, CHR 0x0A]"

text \<open>\<^verbatim>\<open>r.keys()\<close> for each row in turn; a row that is not a dict has no such method.\<close>

fun row_keys :: "json \<Rightarrow> py_error + string list" where
  "row_keys (JObj kvs) = Inr (map fst kvs)"
| "row_keys x = Inl (AttributeError ([CHR 0x27] @ type_name x @ [CHR 0x27] @ '' object has no attribute '' @ [CHR 0x27] @ ''keys'' @ [CHR 0x27]))"

fun all_keys :: "json list \<Rightarrow> py_error + string list" where
  "all_keys [] = Inr []"
| "all_keys (r # rs) =
     (case row_keys r of
        Inl e \<Rightarrow> Inl e
      | Inr ks \<Rightarrow> (case all_keys rs of Inl e \<Rightarrow> Inl e | Inr ks' \<Rightarrow> Inr (ks @ ks')))"

text \<open>Line 75: \<^verbatim>\<open>sorted\<close> of the set of all keys.\<close>

definition fieldnames :: "json list \<Rightarrow> py_error + string list" where
  "fieldnames rows = (case all_keys rows of Inl e \<Rightarrow> Inl e | Inr ks \<Rightarrow> Inr (sort (remdups ks)))"

text \<open>
  \<^verbatim>\<open>DictWriter.writerow\<close>: for each field name in order, the row's value under that name,
  or the empty string where the row has none. Every row is a dict here, since line 75 has
  passed.
\<close>

fun row_items :: "json \<Rightarrow> (string \<times> json) list" where
  "row_items (JObj kvs) = kvs"
| "row_items x = []"

definition row_cells :: "string list \<Rightarrow> json \<Rightarrow> string list" where
  "row_cells keys r =
     map (\<lambda>k. case map_of (row_items r) k of None \<Rightarrow> '''' | Some v \<Rightarrow> cell_text v) keys"

definition csv_text :: "string list \<Rightarrow> json list \<Rightarrow> string" where
  "csv_text keys rows = csv_row keys @ concat (map (\<lambda>r. csv_row (row_cells keys r)) rows)"

text \<open>
  The file system: the text of each file, and for each path that cannot be opened for
  writing the message of the \<^verbatim>\<open>OSError\<close> that \<^verbatim>\<open>open\<close> raises.
\<close>

record filesys =
  contents :: "string \<rightharpoonup> string"
  open_error :: "string \<rightharpoonup> string"

definition open_write :: "filesys \<Rightarrow> string \<Rightarrow> string \<Rightarrow> py_error + filesys" where
  "open_write fs path txt =
     (case open_error fs path of
        Some msg \<Rightarrow> Inl (OSError msg)
      | None \<Rightarrow> Inr (fs\<lparr>contents := (contents fs)(path \<mapsto> txt)\<rparr>))"

definition write_csv :: "filesys \<Rightarrow> json list \<Rightarrow> string \<Rightarrow> py_error + filesys" where
  "write_csv fs rows path =
     (if rows = [] then open_write fs path ''''
      else
        (case fieldnames rows of
           Inl e \<Rightarrow> Inl e
         | Inr keys \<Rightarrow> open_write fs path (csv_text keys rows)))"

section \<open>The entry point\<close>

text \<open>The namespace that \<^verbatim>\<open>parse_args\<close> returns.\<close>

datatype resource = Assets | Locations

fun resource_name :: "resource \<Rightarrow> string" where
  "resource_name Assets = ''assets''"
| "resource_name Locations = ''locations''"

record args =
  arg_resource :: resource
  arg_query :: "string option"
  arg_limit :: int
  arg_sleep :: pyfloat
  arg_out :: "string option"
  arg_stdout :: bool

text \<open>
  What \<^verbatim>\<open>parse_args()\<close> does with the command line. It returns the namespace; or the
  command line is not accepted (an unknown option, \<^verbatim>\<open>--limit abc\<close>, a resource outside the
  choices) and \<^verbatim>\<open>argparse\<close> writes its usage message to stderr and calls \<^verbatim>\<open>sys.exit(2)\<close>;
  or \<^verbatim>\<open>-h\<close> is given and it writes the help text to stdout and calls \<^verbatim>\<open>sys.exit(0)\<close>. The
  parsing itself is the library's: the outcome is an input of \<^verbatim>\<open>main\<close>.
\<close>

datatype cmdline = Parsed args | Rejected string | Help string

text \<open>
  How the process ends: \<^verbatim>\<open>sys.exit(n)\<close> or the return of \<^verbatim>\<open>main\<close> (status 0), or an
  exception that nothing catches, which the interpreter reports with a traceback.
\<close>

datatype ending = Exit int | Uncaught py_error

text \<open>
  The status the operating system sees: the argument of \<^verbatim>\<open>sys.exit\<close>, 0 after the return
  of \<^verbatim>\<open>main\<close>, and 1 after an exception that nothing catches.
\<close>

fun exit_status :: "ending \<Rightarrow> int" where
  "exit_status (Exit n) = n"
| "exit_status (Uncaught e) = 1"

record run =
  run_stdout :: "string list"
  run_end :: ending
  run_files :: filesys
  run_events :: "event list"

text \<open>
  The text under \<^verbatim>\<open>error\<close> in the two handlers of \<^verbatim>\<open>main\<close>. The first formats
  \<^verbatim>\<open>e.response.status_code if e.response else ''\<close>, and a response is true exactly when
  its status is outside 400 to 599. The second is \<^verbatim>\<open>str(e)\<close>.
\<close>

definition response_ok :: "int \<Rightarrow> bool" where
  "response_ok status_code = (\<not> (400 \<le> status_code \<and> status_code < 600))"

fun error_text :: "py_error \<Rightarrow> string" where
  "error_text (HTTPError status_code) =
     ''HTTP '' @ (if response_ok status_code then str_int status_code else '''')"
| "error_text (RequestException msg) = msg"
| "error_text (JSONDecodeError msg) = msg"
| "error_text (TypeError msg) = msg"
| "error_text (ValueError msg) = msg"
| "error_text (AttributeError msg) = msg"
| "error_text (OSError msg) = msg"
| "error_text (OverflowError msg) = msg"
| "error_text (UnicodeEncodeError msg) = msg"

definition error_line :: "string \<Rightarrow> string" where
  "error_line msg = json_dumps True (JObj [(''ok'', JBool False), (''error'', JStr msg)])"

definition summary_line :: "resource \<Rightarrow> json list \<Rightarrow> string option \<Rightarrow> string" where
  "summary_line res rows outp =
     json_dumps True
       (JObj [(''ok'', JBool True), (''resource'', JStr (resource_name res)),
              (''count'', JInt (int (length rows))),
              (''out'', JStr (case outp of None \<Rightarrow> '''' | Some p \<Rightarrow> p))])"

text \<open>
  \<^verbatim>\<open>print(txt)\<close>. The text is encoded for stdout, and a character that the encoding cannot
  take raises \<^verbatim>\<open>UnicodeEncodeError\<close> (under UTF-8 a lone surrogate, under a narrower
  encoding more). The encoder is a parameter: for a text it refuses, the message of the
  exception. A text of ASCII characters is never refused.
\<close>

definition is_ascii :: "string \<Rightarrow> bool" where
  "is_ascii txt = list_all (\<lambda>c. (of_char c :: nat) < 128) txt"

definition py_print :: "(string \<Rightarrow> string option) \<Rightarrow> string \<Rightarrow> py_error option" where
  "py_print enc txt =
     (if is_ascii txt then None else map_option UnicodeEncodeError (enc txt))"

text \<open>
  A \<^verbatim>\<open>print\<close> followed by the end of the process with the given status. An exception of
  the \<^verbatim>\<open>print\<close> is caught by nothing, wherever it stands in \<^verbatim>\<open>main\<close>.
\<close>

definition print_and_exit ::
  "(string \<Rightarrow> string option) \<Rightarrow> string \<Rightarrow> int \<Rightarrow> filesys \<Rightarrow> event list \<Rightarrow> run" where
  "print_and_exit enc txt status fs evs =
     (case py_print enc txt of
        Some e \<Rightarrow> \<lparr>run_stdout = [], run_end = Uncaught e, run_files = fs, run_events = evs\<rparr>
      | None \<Rightarrow> \<lparr>run_stdout = [txt], run_end = Exit status, run_files = fs, run_events = evs\<rparr>)"

text \<open>
  \<^verbatim>\<open>main\<close>. Each \<^verbatim>\<open>print\<close> adds one element to \<open>run_stdout\<close>: the text before the line
  end that \<^verbatim>\<open>print\<close> appends; the help text of \<^verbatim>\<open>-h\<close> is one element too. What goes to
  stderr (the usage message, a traceback) is not recorded. \<open>None\<close> is a run whose pager
  never returns.
\<close>

definition main ::
  "(string \<Rightarrow> json option) \<Rightarrow> (string \<Rightarrow> string option) \<Rightarrow> environ \<Rightarrow> cmdline \<Rightarrow>
   's server \<Rightarrow> 's \<Rightarrow> filesys \<Rightarrow> run option" where
  "main loads enc env cl srv st fs =
     (let base_url = getenv env ''REFTAB_BASE_URL'' ''''
      in if base_url = '''' then
           Some (print_and_exit enc (error_line ''Missing REFTAB_BASE_URL'') 1 fs [])
         else
           let hdrs = build_headers loads env
           in if header_missing hdrs ''X-Public-Key'' \<or> header_missing hdrs ''X-Secret-Key'' then
                Some (print_and_exit enc
                        (error_line ''Missing REFTAB_PUBLIC_KEY or REFTAB_SECRET_KEY'') 1 fs [])
              else
                (case cl of
                   Rejected usage \<Rightarrow>
                     Some \<lparr>run_stdout = [], run_end = Exit 2, run_files = fs, run_events = []\<rparr>
                 | Help txt \<Rightarrow>
                     Some \<lparr>run_stdout = [txt], run_end = Exit 0, run_files = fs, run_events = []\<rparr>
                 | Parsed a \<Rightarrow>
                     let s = build_session
                     in case (case arg_resource a of
                                Assets \<Rightarrow>
                                  fetch_assets srv st s base_url hdrs (arg_limit a) (arg_sleep a) (arg_query a)
                              | Locations \<Rightarrow>
                                  fetch_locations srv st s base_url hdrs (arg_limit a) (arg_sleep a) (arg_query a)) of
                          None \<Rightarrow> None
                        | Some (evs, Inl e) \<Rightarrow>
                            Some (print_and_exit enc (error_line (error_text e)) 2 fs evs)
                        | Some (evs, Inr rows) \<Rightarrow>
                            (case (case arg_out a of
                                     None \<Rightarrow> Inr fs
                                   | Some path \<Rightarrow>
                                       if path \<noteq> '''' then write_csv fs rows path else Inr fs) of
                               Inl e \<Rightarrow>
                                 Some \<lparr>run_stdout = [], run_end = Uncaught e, run_files = fs,
                                       run_events = evs\<rparr>
                             | Inr fs' \<Rightarrow>
                                 Some (print_and_exit enc
                                         (if arg_stdout a then json_dumps False (JList rows)
                                          else summary_line (arg_resource a) rows (arg_out a))
                                         0 fs' evs))))"

section \<open>Servers, pages and runs\<close>


text \<open>
  A reply that delivers the page \<open>p\<close>: a status below 400 and a body that is the list
  \<open>p\<close> itself or a mapping with \<open>p\<close> under \<^verbatim>\<open>results\<close>.
\<close>

definition is_page :: "reply \<Rightarrow> json list \<Rightarrow> bool" where
  "is_page r p =
     (case r of
        Raises msg \<Rightarrow> False
      | Response status_code b \<Rightarrow>
          status_code < 400 \<and>
          (case b of
             NotJson msg \<Rightarrow> False
           | Json (JList xs) \<Rightarrow> xs = p
           | Json (JObj kvs) \<Rightarrow> map_of kvs ''results'' = Some (JList p)
           | Json x \<Rightarrow> False))"

fun is_5xx :: "reply \<Rightarrow> bool" where
  "is_5xx (Response status_code b) = (status_code \<ge> 500)"
| "is_5xx (Raises msg) = False"

text \<open>
  An empty first page in the words of the specification: a null or empty body, a mapping
  whose \<^verbatim>\<open>results\<close> entry is absent or empty, or a body that is neither such a mapping nor
  a sequence.
\<close>

definition empty_first_body :: "json \<Rightarrow> bool" where
  "empty_first_body j =
     (\<not> truthy j \<or>
      (case j of
         JObj kvs \<Rightarrow> (case map_of kvs ''results'' of None \<Rightarrow> True | Some r \<Rightarrow> \<not> truthy r)
       | JList xs \<Rightarrow> False
       | _ \<Rightarrow> True))"



text \<open>The sleep between two pages: line 54.\<close>

definition pause :: "pyfloat \<Rightarrow> event list" where
  "pause sleep_s = (if gt_zero sleep_s then [Sleep sleep_s] else [])"

text \<open>
  A server that plays a script: its state is the list of replies still to give, and a
  request beyond the script finds the connection refused.
\<close>

definition scripted :: "reply list server" where
  "scripted rs rq = (case rs of [] \<Rightarrow> (Raises ''connection refused'', []) | r # rs' \<Rightarrow> (r, rs'))"

text \<open>A record of a result set: a dict, with distinct keys. A nested value: a dict or a list.\<close>

fun is_dict :: "json \<Rightarrow> bool" where
  "is_dict (JObj kvs) = distinct (map fst kvs)"
| "is_dict x = False"

fun nested :: "json \<Rightarrow> bool" where
  "nested (JList xs) = True"
| "nested (JObj kvs) = True"
| "nested x = False"

text \<open>
  Names for three steps of \<^verbatim>\<open>main\<close>: the two checks of lines 94 and 98 taken together,
  the fetch of lines 104 to 107, and the optional write of lines 114 and 115.
\<close>

definition config_error :: "(string \<Rightarrow> json option) \<Rightarrow> environ \<Rightarrow> bool" where
  "config_error loads env =
     (getenv env ''REFTAB_BASE_URL'' '''' = ''''
      \<or> header_missing (build_headers loads env) ''X-Public-Key''
      \<or> header_missing (build_headers loads env) ''X-Secret-Key'')"

definition fetch_rows ::
  "(string \<Rightarrow> json option) \<Rightarrow> environ \<Rightarrow> args \<Rightarrow> 's server \<Rightarrow> 's \<Rightarrow>
   (event list \<times> (py_error + json list)) option" where
  "fetch_rows loads env a srv st =
     (case arg_resource a of
        Assets \<Rightarrow>
          fetch_assets srv st build_session (getenv env ''REFTAB_BASE_URL'' '''')
            (build_headers loads env) (arg_limit a) (arg_sleep a) (arg_query a)
      | Locations \<Rightarrow>
          fetch_locations srv st build_session (getenv env ''REFTAB_BASE_URL'' '''')
            (build_headers loads env) (arg_limit a) (arg_sleep a) (arg_query a))"

definition write_out :: "filesys \<Rightarrow> args \<Rightarrow> json list \<Rightarrow> py_error + filesys" where
  "write_out fs a rows =
     (case arg_out a of
        None \<Rightarrow> Inr fs
      | Some path \<Rightarrow> if path \<noteq> '''' then write_csv fs rows path else Inr fs)"

section \<open>One iteration of the pager\<close>

lemma batch_of_page:
  assumes "is_page (Response sc (Json j)) p"
  shows "batch_of j = JList p"
  using assms
  by (cases j) (auto simp: is_page_def batch_of_def py_or_def split: option.splits)

lemma is_pageE:
  assumes "is_page r p"
  obtains sc j where "r = Response sc (Json j)" "sc < 400" "batch_of j = JList p"
proof -
  from assms obtain sc b where r: "r = Response sc b" and sc: "sc < 400"
    by (cases r) (auto simp: is_page_def)
  from assms r obtain j where b: "b = Json j"
    by (cases b) (auto simp: is_page_def)
  from assms r b have "batch_of j = JList p" by (simp add: batch_of_page)
  with r sc b that show thesis by blast
qed

lemma pager_loop_page:
  assumes "srv st (mk_request sess base_url path params hdrs limit offset) = (r, st')"
    and "is_page r p"
    and "gt_zero sleep_s \<longrightarrow> time_sleep sleep_s = None"
  shows "pager_loop srv sess base_url path params hdrs limit sleep_s st offset out evs =
         (let evs1 = evs @ [Get (mk_request sess base_url path params hdrs limit offset)]
          in if p = [] then Some (evs1, Inr out)
             else if int (length p) < limit then Some (evs1, Inr (out @ p))
             else pager_loop srv sess base_url path params hdrs limit sleep_s st'
                    (offset + limit) (out @ p) (evs1 @ pause sleep_s))"
proof -
  from assms(2) obtain sc j where r: "r = Response sc (Json j)" and sc: "sc < 400"
    and b: "batch_of j = JList p" by (rule is_pageE)
  from sc have nsc: "\<not> 500 \<le> sc" "\<not> 400 \<le> sc" by simp_all
  show ?thesis
    by (subst pager_loop.simps)
      (cases "gt_zero sleep_s"; simp add: assms(1,3) r nsc b Let_def pause_def)
qed









lemma batch_of_empty: "empty_first_body j \<Longrightarrow> batch_of j = JList []"
  by (cases j) (auto simp: empty_first_body_def batch_of_def py_or_def split: option.splits)


lemma time_sleep_overflow:
  "time_sleep (Finite 10000000000) = Some (OverflowError ''timestamp too large to convert to C _PyTime_t'')"
  by simp

text \<open>
  A sleep that the interpreter refuses ends the run: with \<^verbatim>\<open>--sleep 1e10\<close> the pager raises
  after the first full page, and after the first reply with a status of 500 or more.
\<close>

lemma pager_loop_page_sleep_fails:
  assumes "srv st (mk_request sess base_url path params hdrs limit offset) = (r, st')"
    and "is_page r p" and "p \<noteq> []" and "\<not> int (length p) < limit"
    and "gt_zero sleep_s" and "time_sleep sleep_s = Some e"
  shows "pager_loop srv sess base_url path params hdrs limit sleep_s st offset out evs =
         Some (evs @ [Get (mk_request sess base_url path params hdrs limit offset)], Inl e)"
proof -
  from assms(2) obtain sc j where r: "r = Response sc (Json j)" and sc: "sc < 400"
    and b: "batch_of j = JList p" by (rule is_pageE)
  from sc have nsc: "\<not> 500 \<le> sc" "\<not> 400 \<le> sc" by simp_all
  show ?thesis
    by (subst pager_loop.simps) (simp add: assms(1,3,4,5,6) r nsc b Let_def)
qed

lemma pager_loop_5xx_sleep_fails:
  assumes "srv st (mk_request sess base_url path params hdrs limit offset) = (r, st')"
    and "is_5xx r" and "time_sleep sleep_s = Some e"
  shows "pager_loop srv sess base_url path params hdrs limit sleep_s st offset out evs =
         Some (evs @ [Get (mk_request sess base_url path params hdrs limit offset)], Inl e)"
proof -
  from assms(2) obtain sc b where r: "r = Response sc b" and sc: "sc \<ge> 500"
    by (cases r) auto
  show ?thesis
    by (subst pager_loop.simps) (simp add: assms(1,3) r sc Let_def)
qed

section \<open>Claims about the pager\<close>







text \<open>
  C6. If the first reply has a status below 400 and an empty body in the sense of
  \<^const>\<open>empty_first_body\<close>, \<^verbatim>\<open>get_paginated\<close> returns the empty list after exactly one
  request.
\<close>

theorem C6_empty_first_page:
  assumes "srv st (mk_request sess base_url path params hdrs limit 0) = (Response status_code (Json j), st')"
    and "status_code < 400"
    and "empty_first_body j"
  shows "get_paginated srv st sess base_url path params hdrs limit sleep_s =
         Some ([Get (mk_request sess base_url path params hdrs limit 0)], Inr [])"
proof -
  from assms(2) have nsc: "\<not> 500 \<le> status_code" "\<not> 400 \<le> status_code" by simp_all
  show ?thesis
    unfolding get_paginated_def
    by (subst pager_loop.simps) (simp add: assms(1) nsc batch_of_empty [OF assms(3)] Let_def)
qed

theorem C6_empty_first_page_witness:
  "get_paginated scripted [Response 200 (Json (JObj [(''total'', JInt 0), (''results'', JList [])]))]
     build_session ''https://reftab.example/api'' ''assets'' [] [] 200 (Finite (1 / 5))
   = Some ([Get (mk_request build_session ''https://reftab.example/api'' ''assets'' [] [] 200 0)], Inr [])"
  by (rule C6_empty_first_page [where status_code = 200 and st' = "[]"
        and j = "JObj [(''total'', JInt 0), (''results'', JList [])]"])
    (simp_all add: scripted_def empty_first_body_def)

section \<open>Claims about the CSV writer\<close>

lemma all_keys_dicts:
  "list_all is_dict rows \<Longrightarrow> all_keys rows = Inr (concat (map (\<lambda>r. map fst (row_items r)) rows))"
proof (induction rows)
  case Nil
  then show ?case by simp
next
  case (Cons r rows)
  from Cons.prems obtain kvs where "r = JObj kvs" by (cases r) simp_all
  with Cons show ?case by simp
qed

lemma cell_text_nested: "nested v \<Longrightarrow> cell_text v = json_dumps True v"
  by (cases v) simp_all

lemma row_cells_nth:
  "i < length keys \<Longrightarrow>
   row_cells keys r ! i = (case map_of (row_items r) (keys ! i) of None \<Rightarrow> '''' | Some v \<Rightarrow> cell_text v)"
  by (simp add: row_cells_def)

lemma fieldnames_ab:
  "fieldnames [JObj [(''a'', JInt 1)], JObj [(''b'', JInt 2)]] = Inr [''a'', ''b'']"
  by (simp add: fieldnames_def)

lemma str_int_digit: "0 \<le> i \<Longrightarrow> i < 10 \<Longrightarrow> str_int i = [digit_char (nat i)]"
  by (simp add: str_int_def str_nat.simps)

lemma csv_text_ab:
  "csv_text [''a'', ''b''] [JObj [(''a'', JInt 1)], JObj [(''b'', JInt 2)]]
   = [CHR ''a'', CHR '','', CHR ''b'', CHR 0x0D, CHR 0x0A,
      CHR ''1'', CHR '','', CHR 0x0D, CHR 0x0A,
      CHR '','', CHR ''2'', CHR 0x0D, CHR 0x0A]"
  by (simp add: csv_text_def csv_row_def row_cells_def csv_field_def needs_quotes_def
      str_int_digit digit_char_def)

text \<open>
  C7. For a non-empty result set of records, on a path that can be opened, \<^verbatim>\<open>write_csv\<close>
  writes the header row and then one row per record in the order of the result set. The
  header is the sorted list, without repetition, of all keys of all records. A cell is
  empty where the record lacks the key, the \<^verbatim>\<open>json.dumps\<close> text for a dict or a list,
  and the value itself for a scalar: a string unchanged, a number or a boolean as
  \<^verbatim>\<open>str\<close> prints it, \<^verbatim>\<open>None\<close> as the empty string. The witness is the example of the
  specification: the rows \<^verbatim>\<open>[{"a":1},{"b":2}]\<close> give the lines \<^verbatim>\<open>a,b\<close>, \<^verbatim>\<open>1,\<close> and
  \<^verbatim>\<open>,2\<close>.
\<close>

theorem C7_csv_rows:
  assumes "rows \<noteq> []" and "list_all is_dict rows" and "open_error fs path = None"
  shows "\<exists>keys.
           fieldnames rows = Inr keys
         \<and> sorted keys \<and> distinct keys
         \<and> set keys = (\<Union>r \<in> set rows. fst ` set (row_items r))
         \<and> write_csv fs rows path =
             Inr (fs\<lparr>contents := (contents fs)
                    (path \<mapsto> csv_row keys @ concat (map (\<lambda>r. csv_row (row_cells keys r)) rows))\<rparr>)
         \<and> (\<forall>r \<in> set rows.
              length (row_cells keys r) = length keys
            \<and> (\<forall>i < length keys.
                 case map_of (row_items r) (keys ! i) of
                   None \<Rightarrow> row_cells keys r ! i = ''''
                 | Some v \<Rightarrow>
                     (nested v \<longrightarrow> row_cells keys r ! i = json_dumps True v)
                   \<and> (\<forall>s. v = JStr s \<longrightarrow> row_cells keys r ! i = s)
                   \<and> (\<forall>n. v = JInt n \<longrightarrow> row_cells keys r ! i = str_int n)
                   \<and> (\<forall>b. v = JBool b \<longrightarrow> row_cells keys r ! i = (if b then ''True'' else ''False''))
                   \<and> (v = JNull \<longrightarrow> row_cells keys r ! i = '''')))"
proof -
  let ?ks = "concat (map (\<lambda>r. map fst (row_items r)) rows)"
  let ?keys = "sort (remdups ?ks)"
  have fn: "fieldnames rows = Inr ?keys"
    by (simp add: fieldnames_def all_keys_dicts [OF assms(2)])
  have st: "set ?keys = (\<Union>r \<in> set rows. fst ` set (row_items r))" by auto
  have wr: "write_csv fs rows path =
             Inr (fs\<lparr>contents := (contents fs)
                    (path \<mapsto> csv_row ?keys @ concat (map (\<lambda>r. csv_row (row_cells ?keys r)) rows))\<rparr>)"
    using assms(1,3) by (simp add: write_csv_def fn open_write_def csv_text_def)
  have cells: "length (row_cells ?keys r) = length ?keys
            \<and> (\<forall>i < length ?keys.
                 case map_of (row_items r) (?keys ! i) of
                   None \<Rightarrow> row_cells ?keys r ! i = ''''
                 | Some v \<Rightarrow>
                     (nested v \<longrightarrow> row_cells ?keys r ! i = json_dumps True v)
                   \<and> (\<forall>s. v = JStr s \<longrightarrow> row_cells ?keys r ! i = s)
                   \<and> (\<forall>n. v = JInt n \<longrightarrow> row_cells ?keys r ! i = str_int n)
                   \<and> (\<forall>b. v = JBool b \<longrightarrow> row_cells ?keys r ! i = (if b then ''True'' else ''False''))
                   \<and> (v = JNull \<longrightarrow> row_cells ?keys r ! i = ''''))" for r
  proof (intro conjI allI impI)
    show "length (row_cells ?keys r) = length ?keys" by (simp add: row_cells_def)
  next
    fix i assume i: "i < length ?keys"
    show "case map_of (row_items r) (?keys ! i) of
                   None \<Rightarrow> row_cells ?keys r ! i = ''''
                 | Some v \<Rightarrow>
                     (nested v \<longrightarrow> row_cells ?keys r ! i = json_dumps True v)
                   \<and> (\<forall>s. v = JStr s \<longrightarrow> row_cells ?keys r ! i = s)
                   \<and> (\<forall>n. v = JInt n \<longrightarrow> row_cells ?keys r ! i = str_int n)
                   \<and> (\<forall>b. v = JBool b \<longrightarrow> row_cells ?keys r ! i = (if b then ''True'' else ''False''))
                   \<and> (v = JNull \<longrightarrow> row_cells ?keys r ! i = '''')"
      unfolding row_cells_nth [OF i]
      by (auto split: option.splits simp: cell_text_nested)
  qed
  show ?thesis
  proof (intro exI conjI ballI)
    show "fieldnames rows = Inr ?keys" by (rule fn)
    show "sorted ?keys" by simp
    show "distinct ?keys" by simp
    show "set ?keys = (\<Union>r \<in> set rows. fst ` set (row_items r))" by (rule st)
    show "write_csv fs rows path =
             Inr (fs\<lparr>contents := (contents fs)
                    (path \<mapsto> csv_row ?keys @ concat (map (\<lambda>r. csv_row (row_cells ?keys r)) rows))\<rparr>)"
      by (rule wr)
  qed (use cells in blast)+
qed

theorem C7_csv_rows_witness:
  "write_csv \<lparr>contents = Map.empty, open_error = Map.empty\<rparr>
     [JObj [(''a'', JInt 1)], JObj [(''b'', JInt 2)]] ''out.csv''
   = Inr \<lparr>contents = [''out.csv'' \<mapsto>
            [CHR ''a'', CHR '','', CHR ''b'', CHR 0x0D, CHR 0x0A,
             CHR ''1'', CHR '','', CHR 0x0D, CHR 0x0A,
             CHR '','', CHR ''2'', CHR 0x0D, CHR 0x0A]],
          open_error = Map.empty\<rparr>"
proof -
  let ?rows = "[JObj [(''a'', JInt 1)], JObj [(''b'', JInt 2)]]"
  let ?fs = "\<lparr>contents = Map.empty, open_error = Map.empty\<rparr>"
  have "?rows \<noteq> []" and "list_all is_dict ?rows" and "open_error ?fs ''out.csv'' = None"
    by simp_all
  from C7_csv_rows [OF this] obtain keys where
    k: "fieldnames ?rows = Inr keys"
    and w: "write_csv ?fs ?rows ''out.csv'' =
       Inr (?fs\<lparr>contents := (contents ?fs)
              (''out.csv'' \<mapsto> csv_row keys @ concat (map (\<lambda>r. csv_row (row_cells keys r)) ?rows))\<rparr>)"
    by blast
  from k have "keys = [''a'', ''b'']" by (simp add: fieldnames_ab)
  with w csv_text_ab show ?thesis by (simp add: csv_text_def)
qed

text \<open>
  C8. For the empty result set, on a path that can be opened, \<^verbatim>\<open>write_csv\<close> leaves a file
  of length zero: neither a header nor a row is written.
\<close>

theorem C8_empty_result_set:
  assumes "open_error fs path = None"
  shows "write_csv fs [] path = Inr (fs\<lparr>contents := (contents fs)(path \<mapsto> '''')\<rparr>)"
  using assms by (simp add: write_csv_def open_write_def)

theorem C8_empty_result_set_witness:
  "write_csv \<lparr>contents = [''out.csv'' \<mapsto> ''stale''], open_error = Map.empty\<rparr> [] ''out.csv''
   = Inr \<lparr>contents = [''out.csv'' \<mapsto> ''''], open_error = Map.empty\<rparr>"
  using C8_empty_result_set [of "\<lparr>contents = [''out.csv'' \<mapsto> ''stale''], open_error = Map.empty\<rparr>" "''out.csv''"]
  by simp

section \<open>Steps of the entry point\<close>

lemma is_ascii_append [simp]: "is_ascii (a @ b) = (is_ascii a \<and> is_ascii b)"
  by (simp add: is_ascii_def)

lemma is_ascii_Cons [simp]: "is_ascii (c # cs) = ((of_char c :: nat) < 128 \<and> is_ascii cs)"
  by (simp add: is_ascii_def)

lemma is_ascii_Nil [simp]: "is_ascii []"
  by (simp add: is_ascii_def)

lemma is_ascii_concat: "(\<And>x. x \<in> set xs \<Longrightarrow> is_ascii x) \<Longrightarrow> is_ascii (concat xs)"
  by (induction xs) simp_all

lemma is_ascii_join:
  "is_ascii sep \<Longrightarrow> (\<And>x. x \<in> set xs \<Longrightarrow> is_ascii x) \<Longrightarrow> is_ascii (join sep xs)"
  by (induction sep xs rule: join.induct) simp_all

lemma hex_char_ascii: "d < 16 \<Longrightarrow> (of_char (hex_char d) :: nat) < 128"
proof -
  assume "d < 16"
  then have "hex_char d \<in> set ''0123456789abcdef''"
    unfolding hex_char_def by (intro nth_mem) simp
  then show ?thesis by auto
qed

lemma digit_char_ascii: "d < 10 \<Longrightarrow> (of_char (digit_char d) :: nat) < 128"
proof -
  assume "d < 10"
  then have "digit_char d \<in> set ''0123456789''"
    unfolding digit_char_def by (intro nth_mem) simp
  then show ?thesis by auto
qed

lemma str_nat_ascii: "is_ascii (str_nat n)"
proof (induction n rule: str_nat.induct)
  case (1 n)
  show ?case
  proof (cases "n < 10")
    case True
    then show ?thesis by (subst str_nat.simps) (simp add: digit_char_ascii)
  next
    case False
    with "1.IH" show ?thesis by (subst str_nat.simps) (simp add: digit_char_ascii)
  qed
qed

lemma str_int_ascii: "is_ascii (str_int i)"
  by (simp add: str_int_def str_nat_ascii)

lemma esc_char_ascii: "is_ascii (esc_char True c)"
proof -
  have "of_char c div 16 < (16::nat)" "of_char c mod 16 < (16::nat)"
    by (simp_all add: less_mult_imp_div_less)
  then have "(of_char (hex_char (of_char c div 16)) :: nat) < 128"
    "(of_char (hex_char (of_char c mod 16)) :: nat) < 128"
    by (simp_all add: hex_char_ascii)
  then show ?thesis
    by (auto simp: esc_char_def Let_def u_escape_def)
qed

lemma dumps_str_ascii: "is_ascii (dumps_str True s)"
proof -
  have "is_ascii (concat (map (esc_char True) s))"
    by (rule is_ascii_concat) (auto simp: esc_char_ascii)
  then show ?thesis by (simp add: dumps_str_def)
qed

lemma json_dumps_ascii: "is_ascii (json_dumps True v)"
proof (induction v)
  case (JList xs)
  then show ?case by (auto intro!: is_ascii_join)
next
  case (JObj kvs)
  have "is_ascii (dumps_str True (fst kv) @ '': '' @ json_dumps True (snd kv))" if "kv \<in> set kvs" for kv
  proof -
    have "snd kv \<in> Basic_BNFs.snds kv" by (cases kv) simp
    with JObj that have "is_ascii (json_dumps True (snd kv))" by blast
    then show ?thesis by (simp add: dumps_str_ascii)
  qed
  then show ?case by (auto intro!: is_ascii_join)
qed (simp_all add: str_int_ascii dumps_str_ascii)

lemma print_error_line [simp]: "py_print enc (error_line msg) = None"
  by (simp only: py_print_def error_line_def json_dumps_ascii if_True)

lemma print_summary_line [simp]: "py_print enc (summary_line res rows outp) = None"
  by (simp only: py_print_def summary_line_def json_dumps_ascii if_True)

lemma print_and_exit_error:
  "print_and_exit enc (error_line msg) status fs evs =
     \<lparr>run_stdout = [error_line msg], run_end = Exit status, run_files = fs, run_events = evs\<rparr>"
  by (simp add: print_and_exit_def)

lemma main_config_error:
  assumes "config_error loads env"
  shows "\<exists>msg. main loads enc env cl srv st fs =
           Some \<lparr>run_stdout = [error_line msg], run_end = Exit 1, run_files = fs, run_events = []\<rparr>"
  using assms by (auto simp: main_def config_error_def Let_def print_and_exit_error)

lemma main_rejected:
  assumes "\<not> config_error loads env"
  shows "main loads enc env (Rejected usage) srv st fs =
           Some \<lparr>run_stdout = [], run_end = Exit 2, run_files = fs, run_events = []\<rparr>"
  using assms by (simp add: main_def config_error_def Let_def)

lemma main_help:
  assumes "\<not> config_error loads env"
  shows "main loads enc env (Help txt) srv st fs =
           Some \<lparr>run_stdout = [txt], run_end = Exit 0, run_files = fs, run_events = []\<rparr>"
  using assms by (simp add: main_def config_error_def Let_def)

lemma main_fetch:
  assumes "\<not> config_error loads env"
  shows "main loads enc env (Parsed a) srv st fs =
     (case fetch_rows loads env a srv st of
        None \<Rightarrow> None
      | Some (evs, Inl e) \<Rightarrow>
          Some \<lparr>run_stdout = [error_line (error_text e)], run_end = Exit 2,
                run_files = fs, run_events = evs\<rparr>
      | Some (evs, Inr rows) \<Rightarrow>
          (case write_out fs a rows of
             Inl e \<Rightarrow>
               Some \<lparr>run_stdout = [], run_end = Uncaught e, run_files = fs, run_events = evs\<rparr>
           | Inr fs' \<Rightarrow>
               Some (print_and_exit enc
                       (if arg_stdout a then json_dumps False (JList rows)
                        else summary_line (arg_resource a) rows (arg_out a))
                       0 fs' evs)))"
  using assms
  unfolding main_def config_error_def fetch_rows_def write_out_def Let_def print_and_exit_error
  by simp

lemma print_and_exit_not_1: "run_end (print_and_exit enc txt 0 fs evs) \<noteq> Exit 1"
  by (simp add: print_and_exit_def split: option.splits)

lemma hex_char_not_nl: "d < 16 \<Longrightarrow> hex_char d \<noteq> CHR 0x0A"
proof -
  assume "d < 16"
  then have "hex_char d \<in> set ''0123456789abcdef''"
    unfolding hex_char_def by (intro nth_mem) simp
  then show ?thesis by auto
qed

lemma esc_char_no_newline: "CHR 0x0A \<notin> set (esc_char ea c)"
proof -
  have "of_char c div 16 < (16::nat)" "of_char c mod 16 < (16::nat)"
    by (simp_all add: less_mult_imp_div_less)
  then have "hex_char (of_char c div 16) \<noteq> CHR 0x0A" "hex_char (of_char c mod 16) \<noteq> CHR 0x0A"
    by (simp_all add: hex_char_not_nl)
  then show ?thesis
    by (auto simp: esc_char_def Let_def u_escape_def)
qed

lemma dumps_str_no_newline: "CHR 0x0A \<notin> set (dumps_str ea s)"
  by (simp add: dumps_str_def esc_char_no_newline)

lemma error_line_no_newline: "CHR 0x0A \<notin> set (error_line msg)"
  by (simp add: error_line_def dumps_str_no_newline)

lemma fold_update_lookup:
  "distinct (map fst kvs) \<Longrightarrow>
   map_of (fold (\<lambda>(k, v). AList.update (JStr k) v) kvs d) (JStr k) =
   (case map_of kvs k of Some v \<Rightarrow> Some v | None \<Rightarrow> map_of d (JStr k))"
proof (induction kvs arbitrary: d)
  case Nil
  then show ?case by simp
next
  case (Cons kv kvs)
  obtain k0 v0 where kv: "kv = (k0, v0)" by (cases kv)
  from Cons.prems kv have d: "distinct (map fst kvs)" and n: "k0 \<notin> fst ` set kvs" by simp_all
  from n have none: "map_of kvs k0 = None" by (simp add: map_of_eq_None_iff)
  show ?case
    using Cons.IH [OF d, of "AList.update (JStr k0) v0 d"] none
    by (simp add: kv update_conv' split: option.splits)
qed

lemma header_missing_merged:
  assumes "getenv env ''REFTAB_HEADERS'' '''' \<noteq> ''''"
    and "loads (getenv env ''REFTAB_HEADERS'' '''') = Some (JObj kvs)"
    and "distinct (map fst kvs)"
  shows "header_missing (build_headers loads env) ''X-Public-Key'' =
           (case map_of kvs ''X-Public-Key'' of
              Some v \<Rightarrow> \<not> truthy v
            | None \<Rightarrow> getenv env ''REFTAB_PUBLIC_KEY'' '''' = '''')"
    and "header_missing (build_headers loads env) ''X-Secret-Key'' =
           (case map_of kvs ''X-Secret-Key'' of
              Some v \<Rightarrow> \<not> truthy v
            | None \<Rightarrow> getenv env ''REFTAB_SECRET_KEY'' '''' = '''')"
  using assms
  by (simp_all add: header_missing_def build_headers_def Let_def fold_update_lookup split: option.splits)

lemma header_missing_plain:
  assumes "getenv env ''REFTAB_HEADERS'' '''' = '''' \<or> loads (getenv env ''REFTAB_HEADERS'' '''') = None"
  shows "header_missing (build_headers loads env) ''X-Public-Key'' = (getenv env ''REFTAB_PUBLIC_KEY'' '''' = '''')"
    and "header_missing (build_headers loads env) ''X-Secret-Key'' = (getenv env ''REFTAB_SECRET_KEY'' '''' = '''')"
  using assms
  by (auto simp add: header_missing_def build_headers_def Let_def)

lemma main_exit_1_iff:
  "(\<exists>r. main loads enc env cl srv st fs = Some r \<and> run_end r = Exit 1) = config_error loads env"
proof (cases "config_error loads env")
  case True
  with main_config_error [OF True, of enc cl srv st fs] show ?thesis by auto
next
  case False
  show ?thesis
  proof (cases cl)
    case (Parsed a)
    show ?thesis
      using False
      by (auto simp: Parsed main_fetch [OF False] print_and_exit_not_1
          split: option.splits prod.splits sum.splits)
  next
    case (Rejected usage)
    with False show ?thesis by (simp add: main_rejected)
  next
    case (Help h)
    with False show ?thesis by (simp add: main_help)
  qed
qed

lemma pager_loop_raises:
  assumes "srv st (mk_request sess base_url path params hdrs limit offset) = (Raises msg, st')"
  shows "pager_loop srv sess base_url path params hdrs limit sleep_s st offset out evs =
         Some (evs @ [Get (mk_request sess base_url path params hdrs limit offset)],
               Inl (RequestException msg))"
  by (subst pager_loop.simps) (simp add: assms Let_def)

lemma pager_loop_client_error:
  assumes "srv st (mk_request sess base_url path params hdrs limit offset) = (Response sc b, st')"
    and "400 \<le> sc" and "sc < 500"
  shows "pager_loop srv sess base_url path params hdrs limit sleep_s st offset out evs =
         Some (evs @ [Get (mk_request sess base_url path params hdrs limit offset)],
               Inl (HTTPError sc))"
proof -
  from assms(3) have "\<not> 500 \<le> sc" by simp
  then show ?thesis
    by (subst pager_loop.simps) (simp add: assms(1,2) Let_def)
qed

lemma build_headers_plain:
  "build_headers Map.empty
     [''REFTAB_BASE_URL'' \<mapsto> u, ''REFTAB_PUBLIC_KEY'' \<mapsto> pk, ''REFTAB_SECRET_KEY'' \<mapsto> sk]
   = [(JStr ''X-Public-Key'', JStr pk), (JStr ''X-Secret-Key'', JStr sk)]"
  by (simp add: build_headers_def getenv_def)

section \<open>Claims about the entry point\<close>

text \<open>
  C2, as stated, fails on the code. \<^verbatim>\<open>parse_args()\<close> is called at line 101, after the
  configuration checks and outside the \<^verbatim>\<open>try\<close> block: when the command line is not accepted
  (here \<^verbatim>\<open>--limit abc\<close>), \<^verbatim>\<open>argparse\<close> writes its usage message to stderr and exits with
  2, and nothing is printed on stdout. That failure is not reported as a JSON object.
\<close>

theorem C2_rejected_command_line_counterexample:
  "main Map.empty Map.empty
     [''REFTAB_BASE_URL'' \<mapsto> ''https://reftab.example/api'',
      ''REFTAB_PUBLIC_KEY'' \<mapsto> ''pk'', ''REFTAB_SECRET_KEY'' \<mapsto> ''sk'']
     (Rejected ''argument --limit: invalid int value: abc'')
     scripted [Response 200 (Json (JList []))]
     \<lparr>contents = Map.empty, open_error = Map.empty\<rparr>
   = Some \<lparr>run_stdout = [], run_end = Exit 2,
           run_files = \<lparr>contents = Map.empty, open_error = Map.empty\<rparr>,
           run_events = []\<rparr>"
proof -
  let ?env = "[''REFTAB_BASE_URL'' \<mapsto> ''https://reftab.example/api'',
      ''REFTAB_PUBLIC_KEY'' \<mapsto> ''pk'', ''REFTAB_SECRET_KEY'' \<mapsto> ''sk'']"
  have ok: "\<not> config_error Map.empty ?env"
    by (simp add: config_error_def build_headers_plain header_missing_def) (simp add: getenv_def)
  show ?thesis by (rule main_rejected [OF ok])
qed

text \<open>
  C2, amended. A configuration failure ends in \<^verbatim>\<open>sys.exit(1)\<close>. With a valid configuration:
  a command line that \<^verbatim>\<open>argparse\<close> does not accept ends with status 2 and nothing on
  stdout; with an accepted command line, any exception raised while fetching ends in
  \<^verbatim>\<open>sys.exit(2)\<close>; and a run whose fetch returns, whose CSV file, if asked for, is written
  and whose result line is printed ends with status 0. The configuration failure and the
  failed fetch each print exactly one line, the JSON object with \<^verbatim>\<open>ok\<close> false and the
  message under \<^verbatim>\<open>error\<close>, and that text holds no line feed; for a failed fetch the
  message is the text of the handler that caught the exception. \<^verbatim>\<open>main\<close> returns unless
  the pager never returns.
\<close>

theorem C2_exit_codes:
  "(config_error loads env \<longrightarrow>
      (\<exists>msg. main loads enc env cl srv st fs =
                Some \<lparr>run_stdout = [error_line msg], run_end = Exit 1, run_files = fs, run_events = []\<rparr>
            \<and> CHR 0x0A \<notin> set (error_line msg)))
   \<and> (\<not> config_error loads env \<longrightarrow>
        (\<forall>usage. cl = Rejected usage \<longrightarrow>
           main loads enc env cl srv st fs =
             Some \<lparr>run_stdout = [], run_end = Exit 2, run_files = fs, run_events = []\<rparr>)
      \<and> (\<forall>a evs e. cl = Parsed a \<longrightarrow> fetch_rows loads env a srv st = Some (evs, Inl e) \<longrightarrow>
           main loads enc env cl srv st fs =
             Some \<lparr>run_stdout = [error_line (error_text e)], run_end = Exit 2,
                   run_files = fs, run_events = evs\<rparr>
           \<and> CHR 0x0A \<notin> set (error_line (error_text e)))
      \<and> (\<forall>a evs rows fs'. cl = Parsed a \<longrightarrow> fetch_rows loads env a srv st = Some (evs, Inr rows) \<longrightarrow>
           write_out fs a rows = Inr fs' \<longrightarrow>
           (arg_stdout a \<longrightarrow> py_print enc (json_dumps False (JList rows)) = None) \<longrightarrow>
           main loads enc env cl srv st fs =
             Some \<lparr>run_stdout = [if arg_stdout a then json_dumps False (JList rows)
                                 else summary_line (arg_resource a) rows (arg_out a)],
                   run_end = Exit 0, run_files = fs', run_events = evs\<rparr>)
      \<and> (\<forall>a. cl = Parsed a \<longrightarrow>
           (main loads enc env cl srv st fs = None \<longleftrightarrow> fetch_rows loads env a srv st = None)))"
proof (intro conjI impI allI)
  assume "config_error loads env"
  from main_config_error [OF this, of enc cl srv st fs]
  show "\<exists>msg. main loads enc env cl srv st fs =
                Some \<lparr>run_stdout = [error_line msg], run_end = Exit 1, run_files = fs, run_events = []\<rparr>
            \<and> CHR 0x0A \<notin> set (error_line msg)"
    by (auto simp: error_line_no_newline)
next
  fix usage
  assume "\<not> config_error loads env" and "cl = Rejected usage"
  then show "main loads enc env cl srv st fs =
             Some \<lparr>run_stdout = [], run_end = Exit 2, run_files = fs, run_events = []\<rparr>"
    by (simp add: main_rejected)
next
  fix a evs e
  assume ok: "\<not> config_error loads env" and "cl = Parsed a"
    and "fetch_rows loads env a srv st = Some (evs, Inl e)"
  then show "main loads enc env cl srv st fs =
             Some \<lparr>run_stdout = [error_line (error_text e)], run_end = Exit 2,
                   run_files = fs, run_events = evs\<rparr>"
    by (simp add: main_fetch [OF ok])
  show "CHR 0x0A \<notin> set (error_line (error_text e))"
    by (rule error_line_no_newline)
next
  fix a evs rows fs'
  assume ok: "\<not> config_error loads env" and "cl = Parsed a"
    and "fetch_rows loads env a srv st = Some (evs, Inr rows)"
    and "write_out fs a rows = Inr fs'"
    and "arg_stdout a \<longrightarrow> py_print enc (json_dumps False (JList rows)) = None"
  then show "main loads enc env cl srv st fs =
             Some \<lparr>run_stdout = [if arg_stdout a then json_dumps False (JList rows)
                                 else summary_line (arg_resource a) rows (arg_out a)],
                   run_end = Exit 0, run_files = fs', run_events = evs\<rparr>"
    by (simp add: main_fetch [OF ok] print_and_exit_def)
next
  fix a
  assume ok: "\<not> config_error loads env" and "cl = Parsed a"
  then show "main loads enc env cl srv st fs = None \<longleftrightarrow> fetch_rows loads env a srv st = None"
    by (simp add: main_fetch [OF ok] split: option.splits prod.splits sum.splits)
qed

theorem C2_exit_codes_witness:
  "main Map.empty Map.empty
     [''REFTAB_BASE_URL'' \<mapsto> ''https://reftab.example/api'',
      ''REFTAB_PUBLIC_KEY'' \<mapsto> ''pk'', ''REFTAB_SECRET_KEY'' \<mapsto> ''sk'']
     (Parsed \<lparr>arg_resource = Locations, arg_query = Some ''lab'', arg_limit = 200,
              arg_sleep = Finite (1 / 5), arg_out = Some ''out.csv'', arg_stdout = False\<rparr>)
     scripted [] \<lparr>contents = Map.empty, open_error = Map.empty\<rparr>
   = Some \<lparr>run_stdout = [error_line (error_text (RequestException ''connection refused''))],
           run_end = Exit 2,
           run_files = \<lparr>contents = Map.empty, open_error = Map.empty\<rparr>,
           run_events =
             [Get (mk_request build_session ''https://reftab.example/api'' ''locations''
                     [(''q'', JStr ''lab'')]
                     [(JStr ''X-Public-Key'', JStr ''pk''), (JStr ''X-Secret-Key'', JStr ''sk'')] 200 0)]\<rparr>
   \<and> CHR 0x0A \<notin> set (error_line (error_text (RequestException ''connection refused'')))"
proof -
  let ?env = "[''REFTAB_BASE_URL'' \<mapsto> ''https://reftab.example/api'',
      ''REFTAB_PUBLIC_KEY'' \<mapsto> ''pk'', ''REFTAB_SECRET_KEY'' \<mapsto> ''sk'']"
  let ?a = "\<lparr>arg_resource = Locations, arg_query = Some ''lab'', arg_limit = 200,
              arg_sleep = Finite (1 / 5), arg_out = Some ''out.csv'', arg_stdout = False\<rparr>"
  let ?fs = "\<lparr>contents = Map.empty, open_error = Map.empty\<rparr>"
  let ?hdrs = "[(JStr ''X-Public-Key'', JStr ''pk''), (JStr ''X-Secret-Key'', JStr ''sk'')]"
  let ?rq = "mk_request build_session ''https://reftab.example/api'' ''locations''
               [(''q'', JStr ''lab'')] ?hdrs 200 0"
  have ok: "\<not> config_error Map.empty ?env"
    by (simp add: config_error_def build_headers_plain header_missing_def) (simp add: getenv_def)
  have "pager_loop scripted build_session ''https://reftab.example/api'' ''locations''
          [(''q'', JStr ''lab'')] ?hdrs 200 (Finite (1 / 5)) [] 0 [] []
        = Some ([Get ?rq], Inl (RequestException ''connection refused''))"
    using pager_loop_raises [of scripted "[]" build_session "''https://reftab.example/api''"
        "''locations''" "[(''q'', JStr ''lab'')]" ?hdrs 200 0 "''connection refused''" "[]"
        "Finite (1 / 5)" "[]" "[]"]
    by (simp add: scripted_def)
  then have f: "fetch_rows Map.empty ?env ?a scripted []
                = Some ([Get ?rq], Inl (RequestException ''connection refused''))"
    by (simp add: fetch_rows_def fetch_locations_def get_paginated_def query_dict_def build_headers_plain)
      (simp add: getenv_def)
  show ?thesis
    by (rule C2_exit_codes [of Map.empty ?env Map.empty "Parsed ?a" scripted "[]" ?fs,
          THEN conjunct2, THEN mp, OF ok, THEN conjunct2, THEN conjunct1, rule_format, OF refl f])
qed

text \<open>
  C3, as stated, fails on the code. Line 98 rejects the configuration when either header
  is missing or empty: with the base URL and the public key set and no secret key the run
  exits with 1, so one non-empty key does not suffice.
\<close>

theorem C3_one_key_counterexample:
  "main Map.empty Map.empty
     [''REFTAB_BASE_URL'' \<mapsto> ''https://reftab.example/api'', ''REFTAB_PUBLIC_KEY'' \<mapsto> ''pk'']
     (Parsed \<lparr>arg_resource = Assets, arg_query = None, arg_limit = 200, arg_sleep = Finite (1 / 5),
              arg_out = None, arg_stdout = False\<rparr>)
     scripted [Response 200 (Json (JList []))] \<lparr>contents = Map.empty, open_error = Map.empty\<rparr>
   = Some \<lparr>run_stdout = [error_line ''Missing REFTAB_PUBLIC_KEY or REFTAB_SECRET_KEY''],
           run_end = Exit 1,
           run_files = \<lparr>contents = Map.empty, open_error = Map.empty\<rparr>,
           run_events = []\<rparr>"
  by (simp add: main_def build_headers_def header_missing_def Let_def print_and_exit_error)
    (simp add: getenv_def)

text \<open>
  C3, amended. \<^verbatim>\<open>main\<close> exits with 1 exactly when the base URL is absent or empty, or the
  header \<^verbatim>\<open>X-Public-Key\<close> is absent or empty in the header mapping, or the header
  \<^verbatim>\<open>X-Secret-Key\<close> is; it then prints one JSON error line and does nothing else. When
  \<^verbatim>\<open>REFTAB_HEADERS\<close> is unset, empty or not parsable, a header is absent or empty exactly
  when its environment variable is: both keys are required.
\<close>

theorem C3_config_check:
  "((\<exists>r. main loads enc env cl srv st fs = Some r \<and> run_end r = Exit 1) \<longleftrightarrow>
      (getenv env ''REFTAB_BASE_URL'' '''' = ''''
       \<or> header_missing (build_headers loads env) ''X-Public-Key''
       \<or> header_missing (build_headers loads env) ''X-Secret-Key''))
   \<and> (getenv env ''REFTAB_BASE_URL'' '''' = ''''
       \<or> header_missing (build_headers loads env) ''X-Public-Key''
       \<or> header_missing (build_headers loads env) ''X-Secret-Key''
       \<longrightarrow> (\<exists>msg. main loads enc env cl srv st fs =
              Some \<lparr>run_stdout = [error_line msg], run_end = Exit 1, run_files = fs, run_events = []\<rparr>))
   \<and> (getenv env ''REFTAB_HEADERS'' '''' = '''' \<or> loads (getenv env ''REFTAB_HEADERS'' '''') = None
       \<longrightarrow> (header_missing (build_headers loads env) ''X-Public-Key''
              \<longleftrightarrow> getenv env ''REFTAB_PUBLIC_KEY'' '''' = '''')
         \<and> (header_missing (build_headers loads env) ''X-Secret-Key''
              \<longleftrightarrow> getenv env ''REFTAB_SECRET_KEY'' '''' = ''''))"
proof (intro conjI impI)
  show "(\<exists>r. main loads enc env cl srv st fs = Some r \<and> run_end r = Exit 1) \<longleftrightarrow>
      (getenv env ''REFTAB_BASE_URL'' '''' = ''''
       \<or> header_missing (build_headers loads env) ''X-Public-Key''
       \<or> header_missing (build_headers loads env) ''X-Secret-Key'')"
    by (simp add: main_exit_1_iff config_error_def)
next
  assume "getenv env ''REFTAB_BASE_URL'' '''' = ''''
       \<or> header_missing (build_headers loads env) ''X-Public-Key''
       \<or> header_missing (build_headers loads env) ''X-Secret-Key''"
  then have "config_error loads env" by (simp add: config_error_def)
  then show "\<exists>msg. main loads enc env cl srv st fs =
              Some \<lparr>run_stdout = [error_line msg], run_end = Exit 1, run_files = fs, run_events = []\<rparr>"
    by (rule main_config_error)
next
  assume h: "getenv env ''REFTAB_HEADERS'' '''' = '''' \<or> loads (getenv env ''REFTAB_HEADERS'' '''') = None"
  show "header_missing (build_headers loads env) ''X-Public-Key''
              \<longleftrightarrow> getenv env ''REFTAB_PUBLIC_KEY'' '''' = ''''"
    by (rule header_missing_plain(1) [of env loads, OF h])
  show "header_missing (build_headers loads env) ''X-Secret-Key''
              \<longleftrightarrow> getenv env ''REFTAB_SECRET_KEY'' '''' = ''''"
    by (rule header_missing_plain(2) [of env loads, OF h])
qed

theorem C3_config_check_witness:
  "\<not> (\<exists>r. main Map.empty Map.empty
             [''REFTAB_BASE_URL'' \<mapsto> ''https://reftab.example/api'',
              ''REFTAB_PUBLIC_KEY'' \<mapsto> ''pk'', ''REFTAB_SECRET_KEY'' \<mapsto> ''sk'']
             (Parsed \<lparr>arg_resource = Assets, arg_query = None, arg_limit = 200, arg_sleep = Finite (1 / 5),
                      arg_out = None, arg_stdout = False\<rparr>)
             scripted [Response 200 (Json (JList []))]
             \<lparr>contents = Map.empty, open_error = Map.empty\<rparr> = Some r
           \<and> run_end r = Exit 1)
   \<and> (\<exists>msg. main Map.empty Map.empty
             [''REFTAB_BASE_URL'' \<mapsto> ''https://reftab.example/api'', ''REFTAB_SECRET_KEY'' \<mapsto> ''sk'']
             (Parsed \<lparr>arg_resource = Assets, arg_query = None, arg_limit = 200, arg_sleep = Finite (1 / 5),
                      arg_out = None, arg_stdout = False\<rparr>)
             scripted [Response 200 (Json (JList []))]
             \<lparr>contents = Map.empty, open_error = Map.empty\<rparr>
           = Some \<lparr>run_stdout = [error_line msg], run_end = Exit 1,
                   run_files = \<lparr>contents = Map.empty, open_error = Map.empty\<rparr>, run_events = []\<rparr>)"
proof
  let ?a = "\<lparr>arg_resource = Assets, arg_query = None, arg_limit = 200, arg_sleep = Finite (1 / 5),
              arg_out = None, arg_stdout = False\<rparr>"
  let ?fs = "\<lparr>contents = Map.empty, open_error = Map.empty\<rparr>"
  let ?env = "[''REFTAB_BASE_URL'' \<mapsto> ''https://reftab.example/api'',
              ''REFTAB_PUBLIC_KEY'' \<mapsto> ''pk'', ''REFTAB_SECRET_KEY'' \<mapsto> ''sk'']"
  let ?env' = "[''REFTAB_BASE_URL'' \<mapsto> ''https://reftab.example/api'', ''REFTAB_SECRET_KEY'' \<mapsto> ''sk'']"
  have ok: "\<not> (getenv ?env ''REFTAB_BASE_URL'' '''' = ''''
       \<or> header_missing (build_headers Map.empty ?env) ''X-Public-Key''
       \<or> header_missing (build_headers Map.empty ?env) ''X-Secret-Key'')"
    by (simp add: build_headers_plain header_missing_def) (simp add: getenv_def)
  show "\<not> (\<exists>r. main Map.empty Map.empty ?env (Parsed ?a) scripted [Response 200 (Json (JList []))] ?fs = Some r
           \<and> run_end r = Exit 1)"
    using C3_config_check [of Map.empty Map.empty ?env "Parsed ?a" scripted "[Response 200 (Json (JList []))]" ?fs,
        THEN conjunct1] ok
    by blast
  have bad: "getenv ?env' ''REFTAB_BASE_URL'' '''' = ''''
       \<or> header_missing (build_headers Map.empty ?env') ''X-Public-Key''
       \<or> header_missing (build_headers Map.empty ?env') ''X-Secret-Key''"
    by (simp add: build_headers_def header_missing_def Let_def) (simp add: getenv_def)
  show "\<exists>msg. main Map.empty Map.empty ?env' (Parsed ?a) scripted [Response 200 (Json (JList []))] ?fs
           = Some \<lparr>run_stdout = [error_line msg], run_end = Exit 1, run_files = ?fs, run_events = []\<rparr>"
    using C3_config_check [of Map.empty Map.empty ?env' "Parsed ?a" scripted "[Response 200 (Json (JList []))]" ?fs,
        THEN conjunct2, THEN conjunct1] bad
    by blast
qed

text \<open>
  C9. When the configuration is valid and the fetch ends with an exception, at whatever
  page, \<^verbatim>\<open>main\<close> exits with 2, leaves the file system as it was and prints a single line,
  the JSON error object, which depends on the exception only: neither the CSV file nor
  the result array is written, whatever \<^verbatim>\<open>--out\<close> and \<^verbatim>\<open>--stdout\<close> say. In the witness the
  second request of a run with both options fails with status 404 after one full page.
\<close>

theorem C9_failure_discards_rows:
  assumes "\<not> config_error loads env"
    and "fetch_rows loads env a srv st = Some (evs, Inl e)"
  shows "main loads enc env (Parsed a) srv st fs =
           Some \<lparr>run_stdout = [error_line (error_text e)], run_end = Exit 2,
                 run_files = fs, run_events = evs\<rparr>
         \<and> CHR 0x0A \<notin> set (error_line (error_text e))"
  using assms(2) by (simp add: main_fetch [OF assms(1)] error_line_no_newline)

theorem C9_failure_discards_rows_witness:
  "main Map.empty Map.empty
     [''REFTAB_BASE_URL'' \<mapsto> ''https://reftab.example/api'',
      ''REFTAB_PUBLIC_KEY'' \<mapsto> ''pk'', ''REFTAB_SECRET_KEY'' \<mapsto> ''sk'']
     (Parsed \<lparr>arg_resource = Assets, arg_query = None, arg_limit = 1, arg_sleep = Finite 0,
              arg_out = Some ''out.csv'', arg_stdout = True\<rparr>)
     scripted
     [Response 200 (Json (JList [JObj [(''id'', JInt 1)]])), Response 404 (NotJson ''Not Found'')]
     \<lparr>contents = [''out.csv'' \<mapsto> ''kept''], open_error = Map.empty\<rparr>
   = Some \<lparr>run_stdout = [error_line (error_text (HTTPError 404))], run_end = Exit 2,
           run_files = \<lparr>contents = [''out.csv'' \<mapsto> ''kept''], open_error = Map.empty\<rparr>,
           run_events =
             [Get (mk_request build_session ''https://reftab.example/api'' ''assets'' []
                     [(JStr ''X-Public-Key'', JStr ''pk''), (JStr ''X-Secret-Key'', JStr ''sk'')] 1 0),
              Get (mk_request build_session ''https://reftab.example/api'' ''assets'' []
                     [(JStr ''X-Public-Key'', JStr ''pk''), (JStr ''X-Secret-Key'', JStr ''sk'')] 1 1)]\<rparr>
   \<and> CHR 0x0A \<notin> set (error_line (error_text (HTTPError 404)))"
proof -
  let ?env = "[''REFTAB_BASE_URL'' \<mapsto> ''https://reftab.example/api'',
      ''REFTAB_PUBLIC_KEY'' \<mapsto> ''pk'', ''REFTAB_SECRET_KEY'' \<mapsto> ''sk'']"
  let ?a = "\<lparr>arg_resource = Assets, arg_query = None, arg_limit = 1, arg_sleep = Finite 0,
      arg_out = Some ''out.csv'', arg_stdout = True\<rparr>"
  let ?hdrs = "[(JStr ''X-Public-Key'', JStr ''pk''), (JStr ''X-Secret-Key'', JStr ''sk'')]"
  let ?rq = "mk_request build_session ''https://reftab.example/api'' ''assets'' [] ?hdrs 1"
  let ?p = "Response 200 (Json (JList [JObj [(''id'', JInt 1)]]))"
  let ?e = "Response 404 (NotJson ''Not Found'')"
  let ?loop = "pager_loop scripted build_session ''https://reftab.example/api'' ''assets'' [] ?hdrs 1 (Finite 0)"
  have ok: "\<not> config_error Map.empty ?env"
    by (simp add: config_error_def build_headers_plain header_missing_def) (simp add: getenv_def)
  have "?loop [?p, ?e] 0 [] [] = ?loop [?e] 1 [JObj [(''id'', JInt 1)]] [Get (?rq 0)]"
    using pager_loop_page [of scripted "[?p, ?e]" build_session "''https://reftab.example/api''"
        "''assets''" "[]" ?hdrs 1 0 ?p "[?e]" "[JObj [(''id'', JInt 1)]]" "Finite 0" "[]" "[]"]
    by (simp add: scripted_def is_page_def pause_def)
  also have "\<dots> = Some ([Get (?rq 0), Get (?rq 1)], Inl (HTTPError 404))"
    using pager_loop_client_error [of scripted "[?e]" build_session "''https://reftab.example/api''"
        "''assets''" "[]" ?hdrs 1 1 404 "NotJson ''Not Found''" "[]" "Finite 0" "[JObj [(''id'', JInt 1)]]" "[Get (?rq 0)]"]
    by (simp add: scripted_def)
  finally have f: "fetch_rows Map.empty ?env ?a scripted [?p, ?e]
                   = Some ([Get (?rq 0), Get (?rq 1)], Inl (HTTPError 404))"
    by (simp add: fetch_rows_def fetch_assets_def get_paginated_def query_dict_def build_headers_plain)
      (simp add: getenv_def)
  show ?thesis
    by (rule C9_failure_discards_rows [OF ok f])
qed

text \<open>
  C10. The check of line 98 reads the merged header mapping. When \<^verbatim>\<open>REFTAB_HEADERS\<close>
  parses to a JSON object, a run with a base URL passes the check as soon as the object
  gives a non-empty \<^verbatim>\<open>X-Public-Key\<close> and a non-empty \<^verbatim>\<open>X-Secret-Key\<close>, whatever
  \<^verbatim>\<open>REFTAB_PUBLIC_KEY\<close> and \<^verbatim>\<open>REFTAB_SECRET_KEY\<close> hold; and an object that gives either
  header an empty value makes the run exit with 1, even when both variables are set.
\<close>

theorem C10_check_on_merged_headers:
  assumes "getenv env ''REFTAB_HEADERS'' '''' \<noteq> ''''"
    and "loads (getenv env ''REFTAB_HEADERS'' '''') = Some (JObj kvs)"
    and "distinct (map fst kvs)"
  shows "(getenv env ''REFTAB_BASE_URL'' '''' \<noteq> ''''
          \<longrightarrow> (\<exists>vp vs. map_of kvs ''X-Public-Key'' = Some vp \<and> truthy vp
                     \<and> map_of kvs ''X-Secret-Key'' = Some vs \<and> truthy vs)
          \<longrightarrow> \<not> config_error loads env
              \<and> \<not> (\<exists>r. main loads enc env cl srv st fs = Some r \<and> run_end r = Exit 1))
       \<and> ((\<exists>v. (map_of kvs ''X-Public-Key'' = Some v \<or> map_of kvs ''X-Secret-Key'' = Some v) \<and> \<not> truthy v)
          \<longrightarrow> (\<exists>msg. main loads enc env cl srv st fs =
                 Some \<lparr>run_stdout = [error_line msg], run_end = Exit 1, run_files = fs, run_events = []\<rparr>))"
proof (intro conjI impI)
  assume "getenv env ''REFTAB_BASE_URL'' '''' \<noteq> ''''"
    and "\<exists>vp vs. map_of kvs ''X-Public-Key'' = Some vp \<and> truthy vp
                     \<and> map_of kvs ''X-Secret-Key'' = Some vs \<and> truthy vs"
  then show ok: "\<not> config_error loads env"
    by (auto simp: config_error_def header_missing_merged [of env loads kvs, OF assms])
  then show "\<not> (\<exists>r. main loads enc env cl srv st fs = Some r \<and> run_end r = Exit 1)"
    by (simp add: main_exit_1_iff)
next
  assume "\<exists>v. (map_of kvs ''X-Public-Key'' = Some v \<or> map_of kvs ''X-Secret-Key'' = Some v) \<and> \<not> truthy v"
  then have "config_error loads env"
    by (auto simp: config_error_def header_missing_merged [of env loads kvs, OF assms])
  then show "\<exists>msg. main loads enc env cl srv st fs =
                 Some \<lparr>run_stdout = [error_line msg], run_end = Exit 1, run_files = fs, run_events = []\<rparr>"
    by (rule main_config_error)
qed

theorem C10_check_on_merged_headers_witness:
  \<open>\<not> (\<exists>r. main [''{"X-Public-Key": "pk", "X-Secret-Key": "sk"}'' \<mapsto>
                  JObj [(''X-Public-Key'', JStr ''pk''), (''X-Secret-Key'', JStr ''sk'')]]
             Map.empty
             [''REFTAB_BASE_URL'' \<mapsto> ''https://reftab.example/api'',
              ''REFTAB_HEADERS'' \<mapsto> ''{"X-Public-Key": "pk", "X-Secret-Key": "sk"}'']
             (Parsed \<lparr>arg_resource = Assets, arg_query = None, arg_limit = 200, arg_sleep = Finite (1 / 5),
                      arg_out = None, arg_stdout = False\<rparr>)
             scripted [Response 200 (Json (JList []))]
             \<lparr>contents = Map.empty, open_error = Map.empty\<rparr> = Some r
           \<and> run_end r = Exit 1)
   \<and> (\<exists>msg. main [''{"X-Secret-Key": ""}'' \<mapsto> JObj [(''X-Secret-Key'', JStr '''')]]
             Map.empty
             [''REFTAB_BASE_URL'' \<mapsto> ''https://reftab.example/api'',
              ''REFTAB_PUBLIC_KEY'' \<mapsto> ''pk'', ''REFTAB_SECRET_KEY'' \<mapsto> ''sk'',
              ''REFTAB_HEADERS'' \<mapsto> ''{"X-Secret-Key": ""}'']
             (Parsed \<lparr>arg_resource = Assets, arg_query = None, arg_limit = 200, arg_sleep = Finite (1 / 5),
                      arg_out = None, arg_stdout = False\<rparr>)
             scripted [Response 200 (Json (JList []))]
             \<lparr>contents = Map.empty, open_error = Map.empty\<rparr>
           = Some \<lparr>run_stdout = [error_line msg], run_end = Exit 1,
                   run_files = \<lparr>contents = Map.empty, open_error = Map.empty\<rparr>, run_events = []\<rparr>)\<close>
proof
  let ?a = "\<lparr>arg_resource = Assets, arg_query = None, arg_limit = 200, arg_sleep = Finite (1 / 5),
              arg_out = None, arg_stdout = False\<rparr>"
  let ?fs = "\<lparr>contents = Map.empty, open_error = Map.empty\<rparr>"
  let ?st = "[Response 200 (Json (JList []))]"
  let ?x = \<open>''{"X-Public-Key": "pk", "X-Secret-Key": "sk"}''\<close>
  let ?kvs = "[(''X-Public-Key'', JStr ''pk''), (''X-Secret-Key'', JStr ''sk'')]"
  let ?loads = "[?x \<mapsto> JObj ?kvs]"
  let ?env = "[''REFTAB_BASE_URL'' \<mapsto> ''https://reftab.example/api'', ''REFTAB_HEADERS'' \<mapsto> ?x]"
  have h: "getenv ?env ''REFTAB_HEADERS'' '''' \<noteq> ''''"
    "?loads (getenv ?env ''REFTAB_HEADERS'' '''') = Some (JObj ?kvs)"
    "distinct (map fst ?kvs)"
    by (simp_all add: getenv_def)
  have b: "getenv ?env ''REFTAB_BASE_URL'' '''' \<noteq> ''''" by (simp add: getenv_def)
  have s: "\<exists>vp vs. map_of ?kvs ''X-Public-Key'' = Some vp \<and> truthy vp
                     \<and> map_of ?kvs ''X-Secret-Key'' = Some vs \<and> truthy vs"
    by simp
  show "\<not> (\<exists>r. main ?loads Map.empty ?env (Parsed ?a) scripted ?st ?fs = Some r \<and> run_end r = Exit 1)"
    using C10_check_on_merged_headers [of ?env ?loads ?kvs Map.empty "Parsed ?a" scripted ?st ?fs, OF h, THEN conjunct1] b s
    by blast
  let ?y = \<open>''{"X-Secret-Key": ""}''\<close>
  let ?kvs' = "[(''X-Secret-Key'', JStr '''')]"
  let ?loads' = "[?y \<mapsto> JObj ?kvs']"
  let ?env' = "[''REFTAB_BASE_URL'' \<mapsto> ''https://reftab.example/api'',
              ''REFTAB_PUBLIC_KEY'' \<mapsto> ''pk'', ''REFTAB_SECRET_KEY'' \<mapsto> ''sk'',
              ''REFTAB_HEADERS'' \<mapsto> ?y]"
  have h': "getenv ?env' ''REFTAB_HEADERS'' '''' \<noteq> ''''"
    "?loads' (getenv ?env' ''REFTAB_HEADERS'' '''') = Some (JObj ?kvs')"
    "distinct (map fst ?kvs')"
    by (simp_all add: getenv_def)
  have e: "\<exists>v. (map_of ?kvs' ''X-Public-Key'' = Some v \<or> map_of ?kvs' ''X-Secret-Key'' = Some v) \<and> \<not> truthy v"
    by simp
  show "\<exists>msg. main ?loads' Map.empty ?env' (Parsed ?a) scripted ?st ?fs
           = Some \<lparr>run_stdout = [error_line msg], run_end = Exit 1, run_files = ?fs, run_events = []\<rparr>"
    using C10_check_on_merged_headers [of ?env' ?loads' ?kvs' Map.empty "Parsed ?a" scripted ?st ?fs, OF h', THEN conjunct2] e
    by blast
qed

end
